theory Spec2Isabelle
  imports Complex_Main "HOL-Library.Sublist" "HOL-Library.Multiset"
begin

section \<open>Data model (shared/schema.ts)\<close>

text \<open>
  The four tables of the schema. Every column keeps its name, prefixed by the table it
  belongs to, because a record field is a constant of the theory and the tables share column
  names (\<^verbatim>\<open>id\<close>, \<^verbatim>\<open>createdAt\<close>). Identifiers are \<^verbatim>\<open>varchar\<close> and the status of a session is
  \<^verbatim>\<open>text\<close>, so both are strings; a nullable column is an option; a timestamp is an integer
  (milliseconds since the epoch). The \<^verbatim>\<open>rating\<close> column is \<^verbatim>\<open>integer("rating")\<close>: a stored
  rating is an integer. A string is a list of characters with codes 0 to 255, read as the
  code units of a JavaScript string; text with a code unit above 255 is outside the model.
\<close>

record User =
  user_id :: string
  user_username :: string
  user_password :: string
  user_email :: string
  user_fullName :: string
  user_bio :: "string option"
  user_avatarUrl :: "string option"
  user_isAdmin :: bool
  user_createdAt :: int

record Skill =
  skill_id :: string
  skill_userId :: string
  skill_name :: string
  skill_description :: "string option"
  skill_category :: string
  skill_type :: string
  skill_experienceLevel :: "string option"
  skill_createdAt :: int

record Session =
  session_id :: string
  session_requesterId :: string
  session_providerId :: string
  session_skillId :: string
  session_status :: string
  session_scheduledAt :: "int option"
  session_message :: "string option"
  session_createdAt :: int

record Review =
  review_id :: string
  review_sessionId :: string
  review_reviewerId :: string
  review_revieweeId :: string
  review_rating :: int
  review_comment :: "string option"
  review_createdAt :: int

text \<open>
  \<^verbatim>\<open>InsertReview\<close>: the columns picked by \<^verbatim>\<open>insertReviewSchema\<close>. Its \<^verbatim>\<open>rating\<close> is what
  the handler passes, a JavaScript \<^verbatim>\<open>number\<close>: a rational here, the value of the finite
  double the handler holds.
\<close>

record InsertReview =
  insert_sessionId :: string
  insert_reviewerId :: string
  insert_revieweeId :: string
  insert_rating :: rat
  insert_comment :: "string option"

text \<open>\<^verbatim>\<open>SkillWithUser = Skill & { user: User }\<close>.\<close>

record SkillWithUser = Skill +
  user :: User

text \<open>
  \<^verbatim>\<open>SessionWithDetails = Session & { requester; provider; skill }\<close>. The provider is the first
  row of a separate query and is \<^verbatim>\<open>undefined\<close> when that query is empty.
\<close>

record SessionWithDetails = Session +
  requester :: User
  provider :: "User option"
  skill :: Skill

text \<open>
  \<^verbatim>\<open>Partial<Session>\<close>, the argument of \<^verbatim>\<open>updateSession\<close>: every column may be absent, and
  an absent column is not assigned by \<^verbatim>\<open>set(data)\<close>.
\<close>

record PartialSession =
  partial_id :: "string option"
  partial_requesterId :: "string option"
  partial_providerId :: "string option"
  partial_skillId :: "string option"
  partial_status :: "string option"
  partial_scheduledAt :: "int option option"
  partial_message :: "string option option"
  partial_createdAt :: "int option"

text \<open>The database: one list of rows per table, in insertion order.\<close>

record database =
  users :: "User list"
  skills :: "Skill list"
  sessions :: "Session list"
  reviews :: "Review list"

section \<open>Requests and responses\<close>

text \<open>
  A value of a JSON request body as the handlers inspect it: \<^verbatim>\<open>typeof\<close>, strict equality
  and the comparisons with numbers. An array or an object is \<open>JObject\<close>; its contents
  play no role in these handlers.
\<close>

datatype jsval = JUndefined | JNull | JBool bool | JNum rat | JStr string | JObject

text \<open>
  What a handler sends: \<^verbatim>\<open>res.status(c).json({ message: m })\<close> is \<open>Message c m\<close>, and
  \<^verbatim>\<open>res.status(c).json(v)\<close> is \<open>Json c v\<close> (\<^verbatim>\<open>res.json(v)\<close> has status 200).
\<close>

datatype 'a response = Message nat string | Json nat 'a

fun status_code :: "'a response \<Rightarrow> nat" where
  "status_code (Message c m) = c"
| "status_code (Json c v) = c"

text \<open>
  Truthiness of a value that is a string or absent (the session's \<^verbatim>\<open>userId\<close>, a query
  parameter, \<^verbatim>\<open>sessionId\<close> and \<^verbatim>\<open>revieweeId\<close> of a review): \<^verbatim>\<open>!x\<close> is its negation,
  \<^verbatim>\<open>if (x)\<close> tests it. The empty string is falsy.
\<close>

fun truthy :: "string option \<Rightarrow> bool" where
  "truthy None = False"
| "truthy (Some s) = (s \<noteq> [])"

text \<open>
  The body of \<^verbatim>\<open>POST /api/reviews\<close>. \<^verbatim>\<open>sessionId\<close> and \<^verbatim>\<open>revieweeId\<close> are strings or
  absent; \<^verbatim>\<open>rating\<close> is any JSON value, since the handler asks for its \<^verbatim>\<open>typeof\<close>.
\<close>

record ReviewBody =
  body_sessionId :: "string option"
  body_revieweeId :: "string option"
  body_rating :: jsval
  body_comment :: "string option"

text \<open>\<^verbatim>\<open>typeof v === "number"\<close>, and the value of a number.\<close>

fun typeof_number :: "jsval \<Rightarrow> bool" where
  "typeof_number (JNum r) = True"
| "typeof_number _ = False"

fun number_of :: "jsval \<Rightarrow> rat" where
  "number_of (JNum r) = r"
| "number_of _ = 0"

section \<open>Data access layer (server/storage.ts)\<close>

text \<open>
  \<^verbatim>\<open>orderBy(desc(column))\<close>: the rows sorted on the column, greatest first. Rows with equal
  keys keep their order here; SQL leaves their order open, and no property below depends on it.
\<close>

definition order_desc :: "('a \<Rightarrow> int) \<Rightarrow> 'a list \<Rightarrow> 'a list" where
  "order_desc column rows = sort_key (\<lambda>r. - column r) rows"

definition getUser :: "database \<Rightarrow> string \<Rightarrow> User option" where
  "getUser db ident = find (\<lambda>u. user_id u = ident) (users db)"

definition getUserByUsername :: "database \<Rightarrow> string \<Rightarrow> User option" where
  "getUserByUsername db name = find (\<lambda>u. user_username u = name) (users db)"

definition getSkillsByUserId :: "database \<Rightarrow> string \<Rightarrow> Skill list" where
  "getSkillsByUserId db userId =
     order_desc skill_createdAt (filter (\<lambda>s. skill_userId s = userId) (skills db))"

definition getSession :: "database \<Rightarrow> string \<Rightarrow> Session option" where
  "getSession db ident = find (\<lambda>s. session_id s = ident) (sessions db)"

text \<open>\<^verbatim>\<open>set(data)\<close> on one row: the columns present in \<open>data\<close> are assigned.\<close>

definition set_columns :: "PartialSession \<Rightarrow> Session \<Rightarrow> Session" where
  "set_columns data row =
     \<lparr> session_id = (case partial_id data of None \<Rightarrow> session_id row | Some v \<Rightarrow> v),
       session_requesterId =
         (case partial_requesterId data of None \<Rightarrow> session_requesterId row | Some v \<Rightarrow> v),
       session_providerId =
         (case partial_providerId data of None \<Rightarrow> session_providerId row | Some v \<Rightarrow> v),
       session_skillId =
         (case partial_skillId data of None \<Rightarrow> session_skillId row | Some v \<Rightarrow> v),
       session_status =
         (case partial_status data of None \<Rightarrow> session_status row | Some v \<Rightarrow> v),
       session_scheduledAt =
         (case partial_scheduledAt data of None \<Rightarrow> session_scheduledAt row | Some v \<Rightarrow> v),
       session_message =
         (case partial_message data of None \<Rightarrow> session_message row | Some v \<Rightarrow> v),
       session_createdAt =
         (case partial_createdAt data of None \<Rightarrow> session_createdAt row | Some v \<Rightarrow> v) \<rparr>"

text \<open>
  \<^verbatim>\<open>db.update(sessions).set(data).where(eq(sessions.id, id)).returning()\<close>: every row with
  that id is updated, the others are kept, and the first updated row is returned
  (\<^verbatim>\<open>undefined\<close> when there is none).
\<close>

definition updateSession ::
  "database \<Rightarrow> string \<Rightarrow> PartialSession \<Rightarrow> database \<times> Session option" where
  "updateSession db ident data =
     (db\<lparr>sessions := map (\<lambda>r. if session_id r = ident then set_columns data r else r)
                          (sessions db)\<rparr>,
      map_option (set_columns data) (find (\<lambda>r. session_id r = ident) (sessions db)))"

text \<open>
  \<^verbatim>\<open>db.insert(reviews).values(review).returning()\<close>. The \<^verbatim>\<open>rating\<close> column is a 32-bit
  integer: the database refuses a rating that is not an integer of that range, the insert
  throws and nothing is stored (\<open>None\<close>). Otherwise the row is appended with the id and the
  creation time the database generates for it (parameters here) and is returned.
\<close>

definition createReview ::
  "database \<Rightarrow> string \<Rightarrow> int \<Rightarrow> InsertReview \<Rightarrow> (database \<times> Review) option" where
  "createReview db newId now review =
     (if of_int \<lfloor>insert_rating review\<rfloor> \<noteq> insert_rating review
         \<or> insert_rating review < - 2147483648 \<or> insert_rating review > 2147483647
      then None
      else
        (let newReview =
           \<lparr> review_id = newId,
             review_sessionId = insert_sessionId review,
             review_reviewerId = insert_reviewerId review,
             review_revieweeId = insert_revieweeId review,
             review_rating = \<lfloor>insert_rating review\<rfloor>,
             review_comment = insert_comment review,
             review_createdAt = now \<rparr>
         in Some (db\<lparr>reviews := reviews db @ [newReview]\<rparr>, newReview)))"

definition getReviewsByUserId :: "database \<Rightarrow> string \<Rightarrow> Review list" where
  "getReviewsByUserId db userId =
     order_desc review_createdAt (filter (\<lambda>r. review_revieweeId r = userId) (reviews db))"

text \<open>
  \<^verbatim>\<open>getSessionsByUserId\<close>: sessions joined with their requester and their skill, kept when
  the user is requester or provider, newest first; then one query per row for the provider.
\<close>

definition getSessionsByUserId :: "database \<Rightarrow> string \<Rightarrow> SessionWithDetails list" where
  "getSessionsByUserId db userId =
     (let results =
        order_desc (\<lambda>(s, r, k). session_createdAt s)
          [(s, r, k). s \<leftarrow> sessions db, r \<leftarrow> users db, session_requesterId s = user_id r,
                      k \<leftarrow> skills db, session_skillId s = skill_id k,
                      session_requesterId s = userId \<or> session_providerId s = userId]
      in map (\<lambda>(s, r, k).
           Session.extend s
             (SessionWithDetails.fields r
                (find (\<lambda>u. user_id u = session_providerId s) (users db)) k))
           results)"

subsection \<open>Skill search\<close>

text \<open>
  \<^verbatim>\<open>toLowerCase\<close> on code units 0 to 255. In that range the characters with a lower-case
  form are the letters A to Z (65 to 90) and the Latin-1 capitals from A-grave to Thorn
  (192 to 222) without the multiplication sign (215); the lower-case form is 32 code
  points further in each case, and every other character is kept.
\<close>

definition lower_char :: "char \<Rightarrow> char" where
  "lower_char c =
     (let n = (of_char c :: nat)
      in if (65 \<le> n \<and> n \<le> 90) \<or> (192 \<le> n \<and> n \<le> 222 \<and> n \<noteq> 215)
         then char_of (n + 32) else c)"

definition toLowerCase :: "string \<Rightarrow> string" where
  "toLowerCase s = map lower_char s"

text \<open>\<^verbatim>\<open>hay.includes(needle)\<close>: the needle starts at some position of the hay.\<close>

fun str_includes :: "string \<Rightarrow> string \<Rightarrow> bool" where
  "str_includes [] needle = (needle = [])"
| "str_includes (c # cs) needle = (prefix needle (c # cs) \<or> str_includes cs needle)"

text \<open>
  \<^verbatim>\<open>searchSkills\<close>: the join of skills with their owners, newest skill first, filtered in
  memory. A filter is applied when its argument is truthy, so an empty string filters
  nothing. The selected \<^verbatim>\<open>user\<close> object has every column of the user, the password among
  them.
\<close>

definition searchSkills ::
  "database \<Rightarrow> string option \<Rightarrow> string option \<Rightarrow> SkillWithUser list" where
  "searchSkills db query category =
     (let results =
        order_desc skill_createdAt
          [Skill.extend s (SkillWithUser.fields u).
             s \<leftarrow> skills db, u \<leftarrow> users db, skill_userId s = user_id u];
        filtered =
          (if truthy query
           then
             (let lowerQuery = toLowerCase (the query)
              in filter (\<lambda>s. str_includes (toLowerCase (skill_name s)) lowerQuery
                        \<or> (case skill_description s of
                              None \<Rightarrow> False
                            | Some d \<Rightarrow> d \<noteq> [] \<and> str_includes (toLowerCase d) lowerQuery))
                   results)
           else results)
      in if truthy category
         then filter (\<lambda>s. skill_category s = the category) filtered
         else filtered)"

section \<open>API layer (server/routes.ts)\<close>

text \<open>The object \<^verbatim>\<open>{ status }\<close> passed to \<^verbatim>\<open>updateSession\<close>.\<close>

definition only_status :: "string \<Rightarrow> PartialSession" where
  "only_status s =
     \<lparr> partial_id = None, partial_requesterId = None, partial_providerId = None,
       partial_skillId = None, partial_status = Some s, partial_scheduledAt = None,
       partial_message = None, partial_createdAt = None \<rparr>"

text \<open>
  \<^verbatim>\<open>PATCH /api/sessions/:id\<close> behind \<^verbatim>\<open>requireAuth\<close>. \<open>userId\<close> is
  \<^verbatim>\<open>req.session.userId\<close>, \<open>ident\<close> is \<^verbatim>\<open>req.params.id\<close> and \<open>status\<close> is
  \<^verbatim>\<open>req.body.status\<close>. The checks are in the order of the source: authentication, the list
  of the three accepted values, the lookup, the actor. The current status of the session is
  read nowhere.
\<close>

definition patch_session ::
  "database \<Rightarrow> string option \<Rightarrow> string \<Rightarrow> jsval \<Rightarrow> database \<times> Session option response" where
  "patch_session db userId ident status =
     (if \<not> truthy userId then (db, Message 401 ''Unauthorized'')
      else if status \<notin> set [JStr ''accepted'', JStr ''completed'', JStr ''cancelled'']
      then (db, Message 400 ''Invalid status'')
      else
        (case getSession db ident of
           None \<Rightarrow> (db, Message 404 ''Session not found'')
         | Some session \<Rightarrow>
             if (status = JStr ''accepted'' \<or> status = JStr ''completed'')
                \<and> Some (session_providerId session) \<noteq> userId
             then (db, Message 403 ''Only the provider can update this session'')
             else if status = JStr ''cancelled''
                \<and> Some (session_providerId session) \<noteq> userId
                \<and> Some (session_requesterId session) \<noteq> userId
             then (db, Message 403 ''Not authorized'')
             else
               (case updateSession db ident
                       (only_status (case status of JStr s \<Rightarrow> s | _ \<Rightarrow> [])) of
                  (db', updated) \<Rightarrow> (db', Json 200 updated))))"

text \<open>
  \<^verbatim>\<open>POST /api/reviews\<close> behind \<^verbatim>\<open>requireAuth\<close>, check by check as in the source. \<open>newId\<close>
  and \<open>now\<close> are the id and the time the database gives the new row. The handler runs
  inside \<^verbatim>\<open>asyncHandler\<close>: when the insert throws, the answer is the generic 500.
\<close>

definition post_reviews ::
  "database \<Rightarrow> string \<Rightarrow> int \<Rightarrow> string option \<Rightarrow> ReviewBody \<Rightarrow> database \<times> Review response"
  where
  "post_reviews db newId now userId body =
     (if \<not> truthy userId then (db, Message 401 ''Unauthorized'')
      else if \<not> truthy (body_sessionId body) \<or> \<not> truthy (body_revieweeId body)
              \<or> \<not> typeof_number (body_rating body)
              \<or> number_of (body_rating body) < 1 \<or> number_of (body_rating body) > 5
      then (db, Message 400 ''Invalid review data'')
      else
        (case getSession db (the (body_sessionId body)) of
           None \<Rightarrow> (db, Message 400 ''Can only review completed sessions'')
         | Some session \<Rightarrow>
             if session_status session \<noteq> ''completed''
             then (db, Message 400 ''Can only review completed sessions'')
             else if Some (session_requesterId session) \<noteq> userId
                     \<and> Some (session_providerId session) \<noteq> userId
             then (db, Message 403 ''Not authorized to review this session'')
             else if body_revieweeId body \<noteq> Some (session_requesterId session)
                     \<and> body_revieweeId body \<noteq> Some (session_providerId session)
             then (db, Message 400 ''Invalid reviewee'')
             else
               (case createReview db newId now
                       \<lparr> insert_sessionId = the (body_sessionId body),
                         insert_reviewerId = the userId,
                         insert_revieweeId = the (body_revieweeId body),
                         insert_rating = number_of (body_rating body),
                         insert_comment = body_comment body \<rparr> of
                  None \<Rightarrow> (db, Message 500 ''An error occurred. Please try again.'')
                | Some (db', review) \<Rightarrow> (db', Json 201 review))))"

text \<open>\<^verbatim>\<open>GET /api/search\<close>: public, the rows of \<^verbatim>\<open>searchSkills\<close> sent as they are.\<close>

definition get_search ::
  "database \<Rightarrow> string option \<Rightarrow> string option \<Rightarrow> SkillWithUser list response" where
  "get_search db query category = Json 200 (searchSkills db query category)"

text \<open>
  \<^verbatim>\<open>{ ...user, password: undefined }\<close>, the user object of the auth endpoints: the same
  columns with the password set to \<^verbatim>\<open>undefined\<close>, which JSON leaves out.
\<close>

record UserJson =
  json_id :: string
  json_username :: string
  json_password :: "string option"
  json_email :: string
  json_fullName :: string
  json_bio :: "string option"
  json_avatarUrl :: "string option"
  json_isAdmin :: bool
  json_createdAt :: int

definition without_password :: "User \<Rightarrow> UserJson" where
  "without_password u =
     \<lparr> json_id = user_id u, json_username = user_username u, json_password = None,
       json_email = user_email u, json_fullName = user_fullName u, json_bio = user_bio u,
       json_avatarUrl = user_avatarUrl u, json_isAdmin = user_isAdmin u,
       json_createdAt = user_createdAt u \<rparr>"

text \<open>\<^verbatim>\<open>GET /api/auth/me\<close>.\<close>

definition get_auth_me :: "database \<Rightarrow> string option \<Rightarrow> UserJson response" where
  "get_auth_me db userId =
     (if \<not> truthy userId then Message 401 ''Not authenticated''
      else (case getUser db (the userId) of
              None \<Rightarrow> Message 401 ''User not found''
            | Some u \<Rightarrow> Json 200 (without_password u)))"

text \<open>
  \<^verbatim>\<open>POST /api/auth/login\<close>. \<open>username\<close> and \<open>password\<close> are the fields of the body,
  absent when \<^verbatim>\<open>loginSchema\<close> does not find a string there; \<open>compare\<close> is
  \<^verbatim>\<open>bcrypt.compare\<close>, a library function and a parameter here. The first component of the
  result is \<^verbatim>\<open>req.session.userId\<close> after the request. Both auth handlers send the user
  object under the key \<^verbatim>\<open>user\<close>; \<^verbatim>\<open>POST /api/auth/register\<close> sends the same expression.
\<close>

definition post_auth_login ::
  "(string \<Rightarrow> string \<Rightarrow> bool) \<Rightarrow> database \<Rightarrow> string option \<Rightarrow> string option
     \<Rightarrow> string option \<Rightarrow> string option \<times> UserJson response" where
  "post_auth_login compare db userId username password =
     (case (username, password) of
        (Some name, Some pw) \<Rightarrow>
          (case getUserByUsername db name of
             None \<Rightarrow> (userId, Message 401 ''Invalid username or password'')
           | Some u \<Rightarrow>
               if \<not> compare pw (user_password u)
               then (userId, Message 401 ''Invalid username or password'')
               else (Some (user_id u), Json 200 (without_password u)))
      | _ \<Rightarrow> (userId, Message 400 ''Invalid input''))"

subsection \<open>Badges\<close>

text \<open>The object sent by \<^verbatim>\<open>GET /api/users/:id/stats\<close>.\<close>

record UserStats =
  completedSessions :: nat
  offeringSkills :: nat
  seekingSkills :: nat
  averageRating :: rat
  reviewCount :: nat
  badges :: "string list"

text \<open>
  \<^verbatim>\<open>GET /api/users/:id/stats\<close>. The average is the exact quotient of the sum of the
  ratings by their number; the source computes it in double precision.
\<close>

definition get_user_stats :: "database \<Rightarrow> string \<Rightarrow> UserStats response" where
  "get_user_stats db ident =
     (case getUser db ident of
        None \<Rightarrow> Message 404 ''User not found''
      | Some u \<Rightarrow>
          (let skills' = getSkillsByUserId db ident;
               sessions' = getSessionsByUserId db ident;
               reviews' = getReviewsByUserId db ident;
               completed = length (filter (\<lambda>s. session_status s = ''completed'') sessions');
               offering = length (filter (\<lambda>s. skill_type s = ''offering'') skills');
               average =
                 (if length reviews' > 0
                  then of_int (sum_list (map review_rating reviews')) / of_nat (length reviews')
                  else 0)
           in Json 200
                \<lparr> completedSessions = completed,
                  offeringSkills = offering,
                  seekingSkills = length (filter (\<lambda>s. skill_type s = ''seeking'') skills'),
                  averageRating = average,
                  reviewCount = length reviews',
                  badges =
                    (if completed \<ge> 5 then [''top_tutor''] else [])
                    @ (if offering \<ge> 3 then [''skill_master''] else [])
                    @ (if length skills' \<ge> 1 then [''getting_started''] else [])
                    @ (if average \<ge> 9 / 2 \<and> length reviews' \<ge> 3 then [''highly_rated'']
                       else []) \<rparr>))"

text \<open>
  The badges of the client's Dashboard page, by the name they are displayed under. The page
  computes them from the skills and the sessions it has fetched.
\<close>

definition dashboard_badges :: "Skill list \<Rightarrow> SessionWithDetails list \<Rightarrow> string list" where
  "dashboard_badges skills' sessions' =
     (let offering = filter (\<lambda>s. skill_type s = ''offering'') skills';
          completed = length (filter (\<lambda>s. session_status s = ''completed'') sessions')
      in (if completed \<ge> 5 then [''Top Tutor''] else [])
         @ (if length offering \<ge> 3 then [''Skill Master''] else [])
         @ (if length skills' \<ge> 1 then [''Getting Started''] else []))"

text \<open>
  The Dashboard of a logged-in user: its two queries are \<^verbatim>\<open>GET /api/skills/my\<close> and
  \<^verbatim>\<open>GET /api/sessions/my\<close>, which answer with \<^verbatim>\<open>getSkillsByUserId\<close> and
  \<^verbatim>\<open>getSessionsByUserId\<close> of the session's user.
\<close>

definition dashboard :: "database \<Rightarrow> string \<Rightarrow> string list" where
  "dashboard db userId =
     dashboard_badges (getSkillsByUserId db userId) (getSessionsByUserId db userId)"

section \<open>Case-insensitive containment, as the specification words it\<close>





section \<open>An example database\<close>

definition ex_alice :: User where
  "ex_alice =
     \<lparr> user_id = ''u-alice'', user_username = ''alice'', user_password = ''$2b$10$hashA'',
       user_email = ''alice@example.org'', user_fullName = ''Alice A'', user_bio = None,
       user_avatarUrl = None, user_isAdmin = False, user_createdAt = 100 \<rparr>"

definition ex_bob :: User where
  "ex_bob =
     \<lparr> user_id = ''u-bob'', user_username = ''bob'', user_password = ''$2b$10$hashB'',
       user_email = ''bob@example.org'', user_fullName = ''Bob B'', user_bio = None,
       user_avatarUrl = None, user_isAdmin = False, user_createdAt = 200 \<rparr>"

definition ex_python :: Skill where
  "ex_python =
     \<lparr> skill_id = ''k-python'', skill_userId = ''u-bob'', skill_name = ''Python Programming'',
       skill_description = None, skill_category = ''Programming'', skill_type = ''offering'',
       skill_experienceLevel = None, skill_createdAt = 300 \<rparr>"

definition ex_guitar :: Skill where
  "ex_guitar =
     \<lparr> skill_id = ''k-guitar'', skill_userId = ''u-alice'', skill_name = ''Guitar'',
       skill_description = Some ''Chords and rhythm'', skill_category = ''Music'',
       skill_type = ''offering'', skill_experienceLevel = None, skill_createdAt = 350 \<rparr>"


definition ex_session :: "string \<Rightarrow> string \<Rightarrow> Session" where
  "ex_session ident st =
     \<lparr> session_id = ident, session_requesterId = ''u-alice'', session_providerId = ''u-bob'',
       session_skillId = ''k-python'', session_status = st, session_scheduledAt = None,
       session_message = Some ''hello'', session_createdAt = 400 \<rparr>"

definition ex_review :: "string \<Rightarrow> Review" where
  "ex_review ident =
     \<lparr> review_id = ident, review_sessionId = ''s-completed'', review_reviewerId = ''u-alice'',
       review_revieweeId = ''u-bob'', review_rating = 5, review_comment = None,
       review_createdAt = 500 \<rparr>"

definition ex_db :: database where
  "ex_db =
     \<lparr> users = [ex_alice, ex_bob],
       skills = [ex_python, ex_guitar],
       sessions = [ex_session ''s-pending'' ''pending'', ex_session ''s-accepted'' ''accepted'',
                   ex_session ''s-completed'' ''completed''],
       reviews = [ex_review ''r-1'', ex_review ''r-2'', ex_review ''r-3''] \<rparr>"


definition ex_body :: "string \<Rightarrow> string \<Rightarrow> jsval \<Rightarrow> ReviewBody" where
  "ex_body sid reviewee rating =
     \<lparr> body_sessionId = Some sid, body_revieweeId = Some reviewee, body_rating = rating,
       body_comment = None \<rparr>"

section \<open>Properties\<close>

lemmas ex_defs =
  ex_db_def ex_alice_def ex_bob_def ex_python_def ex_guitar_def ex_session_def ex_review_def

subsection \<open>Session status update\<close>

lemma set_columns_only_status:
  "set_columns (only_status t) = (\<lambda>row. row\<lparr>session_status := t\<rparr>)"
  by (rule ext) (simp add: set_columns_def only_status_def)

lemma updateSession_only_status:
  "updateSession db ident (only_status t) =
     (db\<lparr>sessions :=
           map (\<lambda>r. if session_id r = ident then r\<lparr>session_status := t\<rparr> else r)
             (sessions db)\<rparr>,
      map_option (\<lambda>r. r\<lparr>session_status := t\<rparr>) (getSession db ident))"
  by (simp add: updateSession_def set_columns_only_status getSession_def)

lemma find_updated_row:
  assumes "find (\<lambda>r. key r = k) rows = Some row" and "\<And>r. key (f r) = key r"
  shows "find (\<lambda>r. key r = k) (map (\<lambda>r. if key r = k then f r else r) rows) = Some (f row)"
  using assms by (induction rows) (auto split: if_splits)

lemma filter_other_rows:
  assumes "\<And>r. key (f r) = key r"
  shows "filter (\<lambda>s. key s \<noteq> k) (map (\<lambda>r. if key r = k then f r else r) rows) =
         filter (\<lambda>s. key s \<noteq> k) rows"
  using assms by (induction rows) auto

lemma map_untouched_column:
  assumes "\<And>r. g (f r) = g r"
  shows "map g (map (\<lambda>r. if P r then f r else r) rows) = map g rows"
  using assms by (induction rows) auto

lemma ex_getSession:
  "getSession ex_db ''s-pending'' = Some (ex_session ''s-pending'' ''pending'')"
  "getSession ex_db ''s-accepted'' = Some (ex_session ''s-accepted'' ''accepted'')"
  "getSession ex_db ''s-completed'' = Some (ex_session ''s-completed'' ''completed'')"
  "getSession ex_db ''s-missing'' = None"
  by (simp_all add: getSession_def ex_db_def ex_session_def)

text \<open>
  C1, as stated, fails. The session \<^verbatim>\<open>s-completed\<close> is completed; its provider asks for
  \<^verbatim>\<open>cancelled\<close>, the answer is 200 and the stored status is \<^verbatim>\<open>cancelled\<close> afterwards. The
  session \<^verbatim>\<open>s-accepted\<close> is accepted; its requester asks for \<^verbatim>\<open>cancelled\<close> and the session
  is cancelled.
\<close>

theorem terminal_status_counterexample:
  "map_option session_status (getSession ex_db ''s-completed'') = Some ''completed''
   \<and> status_code (snd (patch_session ex_db (Some ''u-bob'') ''s-completed'' (JStr ''cancelled'')))
       = 200
   \<and> map_option session_status
        (getSession (fst (patch_session ex_db (Some ''u-bob'') ''s-completed''
                            (JStr ''cancelled''))) ''s-completed'')
       = Some ''cancelled''
   \<and> map_option session_status (getSession ex_db ''s-accepted'') = Some ''accepted''
   \<and> status_code (snd (patch_session ex_db (Some ''u-alice'') ''s-accepted'' (JStr ''cancelled'')))
       = 200
   \<and> map_option session_status
        (getSession (fst (patch_session ex_db (Some ''u-alice'') ''s-accepted''
                            (JStr ''cancelled''))) ''s-accepted'')
       = Some ''cancelled''"
  by (simp add: getSession_def ex_db_def ex_session_def patch_session_def updateSession_def
      set_columns_def only_status_def)

text \<open>
  C1, amended. The status-update endpoint never reads the current status of the session.
  For every existing session, whatever its status, and every authenticated actor, a request
  for \<^verbatim>\<open>accepted\<close>, \<^verbatim>\<open>completed\<close> or \<^verbatim>\<open>cancelled\<close> succeeds exactly when the actor is the
  provider, or the requester asking for \<^verbatim>\<open>cancelled\<close>: the answer is 200 with the updated
  row, the rows with that id get the requested status, and the session read back has it.
  Any other actor gets 403 and the database is unchanged.
\<close>

theorem transition_ignores_current_status:
  assumes "truthy userId" and "getSession db ident = Some session"
    and "t \<in> {''accepted'', ''completed'', ''cancelled''}"
  shows "patch_session db userId ident (JStr t) =
     (if userId = Some (session_providerId session)
         \<or> (t = ''cancelled'' \<and> userId = Some (session_requesterId session))
      then (db\<lparr>sessions :=
                 map (\<lambda>r. if session_id r = ident then r\<lparr>session_status := t\<rparr> else r)
                   (sessions db)\<rparr>,
            Json 200 (Some (session\<lparr>session_status := t\<rparr>)))
      else (db, Message 403 (if t = ''cancelled'' then ''Not authorized''
                             else ''Only the provider can update this session'')))
   \<and> (userId = Some (session_providerId session)
         \<or> (t = ''cancelled'' \<and> userId = Some (session_requesterId session))
       \<longrightarrow> getSession (fst (patch_session db userId ident (JStr t))) ident
           = Some (session\<lparr>session_status := t\<rparr>))"
proof -
  have first: "patch_session db userId ident (JStr t) =
     (if userId = Some (session_providerId session)
         \<or> (t = ''cancelled'' \<and> userId = Some (session_requesterId session))
      then (db\<lparr>sessions :=
                 map (\<lambda>r. if session_id r = ident then r\<lparr>session_status := t\<rparr> else r)
                   (sessions db)\<rparr>,
            Json 200 (Some (session\<lparr>session_status := t\<rparr>)))
      else (db, Message 403 (if t = ''cancelled'' then ''Not authorized''
                             else ''Only the provider can update this session'')))"
    using assms by (auto simp add: patch_session_def updateSession_only_status)
  have "find (\<lambda>r. session_id r = ident)
          (map (\<lambda>r. if session_id r = ident then r\<lparr>session_status := t\<rparr> else r) (sessions db))
        = Some (session\<lparr>session_status := t\<rparr>)"
    using assms(2) unfolding getSession_def by (rule find_updated_row) simp
  with first show ?thesis by (simp add: getSession_def)
qed

theorem transition_ignores_current_status_witness:
  "truthy (Some ''u-bob'')
   \<and> getSession ex_db ''s-completed'' = Some (ex_session ''s-completed'' ''completed'')
   \<and> ''accepted'' \<in> {''accepted'', ''completed'', ''cancelled''}
   \<and> getSession (fst (patch_session ex_db (Some ''u-bob'') ''s-completed'' (JStr ''accepted'')))
        ''s-completed''
     = Some (ex_session ''s-completed'' ''accepted'')"
proof -
  have a: "truthy (Some ''u-bob'')" by simp
  have t: "''accepted'' \<in> {''accepted'', ''completed'', ''cancelled''}" by simp
  from transition_ignores_current_status [OF a ex_getSession(3) t, THEN conjunct2] a t
  show ?thesis by (simp add: ex_getSession ex_session_def)
qed

text \<open>
  C2. For an existing session and an authenticated actor, a request for \<^verbatim>\<open>accepted\<close> or
  \<^verbatim>\<open>completed\<close> succeeds when the actor is the provider of the session and only then: the
  answer is 200 with the updated row and the rows with that id get the requested status.
  From any other actor the answer is 403 and the database is what it was, so the session
  keeps its status. A request for \<^verbatim>\<open>cancelled\<close> succeeds in the same way when the actor is
  the provider or the requester, and from anyone else is answered 403 with the database
  unchanged.
\<close>

theorem transition_actor_guard:
  assumes "truthy userId" and "getSession db ident = Some session"
  shows "(status = JStr ''accepted'' \<or> status = JStr ''completed'' \<longrightarrow>
            status_code (snd (patch_session db userId ident status)) =
              (if userId = Some (session_providerId session) then 200 else 403))
       \<and> (status = JStr ''cancelled'' \<longrightarrow>
            status_code (snd (patch_session db userId ident status)) =
              (if userId = Some (session_providerId session)
                  \<or> userId = Some (session_requesterId session) then 200 else 403))
       \<and> (t = ''accepted'' \<or> t = ''completed'' \<longrightarrow>
            patch_session db userId ident (JStr t) =
              (if userId = Some (session_providerId session)
               then (db\<lparr>sessions :=
                          map (\<lambda>r. if session_id r = ident then r\<lparr>session_status := t\<rparr> else r)
                            (sessions db)\<rparr>,
                     Json 200 (Some (session\<lparr>session_status := t\<rparr>)))
               else (db, Message 403 ''Only the provider can update this session'')))
       \<and> (patch_session db userId ident (JStr ''cancelled'') =
              (if userId = Some (session_providerId session)
                  \<or> userId = Some (session_requesterId session)
               then (db\<lparr>sessions :=
                          map (\<lambda>r. if session_id r = ident
                                   then r\<lparr>session_status := ''cancelled''\<rparr> else r)
                            (sessions db)\<rparr>,
                     Json 200 (Some (session\<lparr>session_status := ''cancelled''\<rparr>)))
               else (db, Message 403 ''Not authorized'')))
       \<and> (status_code (snd (patch_session db userId ident status)) = 403 \<longrightarrow>
            fst (patch_session db userId ident status) = db
            \<and> getSession (fst (patch_session db userId ident status)) ident = Some session)"
proof -
  have codes: "(status = JStr ''accepted'' \<or> status = JStr ''completed'' \<longrightarrow>
            status_code (snd (patch_session db userId ident status)) =
              (if userId = Some (session_providerId session) then 200 else 403))
       \<and> (status = JStr ''cancelled'' \<longrightarrow>
            status_code (snd (patch_session db userId ident status)) =
              (if userId = Some (session_providerId session)
                  \<or> userId = Some (session_requesterId session) then 200 else 403))"
    using assms by (auto simp add: patch_session_def updateSession_only_status)
  have provider: "patch_session db userId ident (JStr t) =
              (if userId = Some (session_providerId session)
               then (db\<lparr>sessions :=
                          map (\<lambda>r. if session_id r = ident then r\<lparr>session_status := t\<rparr> else r)
                            (sessions db)\<rparr>,
                     Json 200 (Some (session\<lparr>session_status := t\<rparr>)))
               else (db, Message 403 ''Only the provider can update this session''))"
    if "t = ''accepted'' \<or> t = ''completed''"
    using assms that by (auto simp add: patch_session_def updateSession_only_status)
  have cancel: "patch_session db userId ident (JStr ''cancelled'') =
              (if userId = Some (session_providerId session)
                  \<or> userId = Some (session_requesterId session)
               then (db\<lparr>sessions :=
                          map (\<lambda>r. if session_id r = ident
                                   then r\<lparr>session_status := ''cancelled''\<rparr> else r)
                            (sessions db)\<rparr>,
                     Json 200 (Some (session\<lparr>session_status := ''cancelled''\<rparr>)))
               else (db, Message 403 ''Not authorized''))"
    using assms by (auto simp add: patch_session_def updateSession_only_status)
  have refused: "fst (patch_session db userId ident status) = db"
    if "status_code (snd (patch_session db userId ident status)) = 403"
    using assms that
    by (auto simp add: patch_session_def updateSession_only_status split: if_splits)
  from codes provider cancel refused assms(2) show ?thesis by simp
qed

theorem transition_actor_guard_witness:
  "truthy (Some ''u-alice'')
   \<and> getSession ex_db ''s-pending'' = Some (ex_session ''s-pending'' ''pending'')
   \<and> status_code (snd (patch_session ex_db (Some ''u-alice'') ''s-pending'' (JStr ''accepted'')))
       = 403
   \<and> status_code (snd (patch_session ex_db (Some ''u-alice'') ''s-pending'' (JStr ''cancelled'')))
       = 200
   \<and> patch_session ex_db (Some ''u-mallory'') ''s-pending'' (JStr ''completed'')
       = (ex_db, Message 403 ''Only the provider can update this session'')
   \<and> patch_session ex_db (Some ''u-mallory'') ''s-pending'' (JStr ''cancelled'')
       = (ex_db, Message 403 ''Not authorized'')"
proof -
  have a: "truthy (Some ''u-alice'')" and m: "truthy (Some ''u-mallory'')" by simp_all
  note alice = transition_actor_guard [OF a ex_getSession(1)]
  note mallory = transition_actor_guard [OF m ex_getSession(1)]
  from alice [of "JStr ''accepted''" "''accepted''"]
  have 1: "status_code (snd (patch_session ex_db (Some ''u-alice'') ''s-pending''
      (JStr ''accepted''))) = 403"
    by (simp add: ex_session_def)
  from alice [of "JStr ''cancelled''" "''accepted''"]
  have 2: "status_code (snd (patch_session ex_db (Some ''u-alice'') ''s-pending''
      (JStr ''cancelled''))) = 200"
    by (simp add: ex_session_def)
  from mallory [of "JStr ''completed''" "''completed''"]
  have 3: "patch_session ex_db (Some ''u-mallory'') ''s-pending'' (JStr ''completed'')
       = (ex_db, Message 403 ''Only the provider can update this session'')"
    by (simp add: ex_session_def)
  from mallory [of "JStr ''cancelled''" "''accepted''"]
  have 4: "patch_session ex_db (Some ''u-mallory'') ''s-pending'' (JStr ''cancelled'')
       = (ex_db, Message 403 ''Not authorized'')"
    by (simp add: ex_session_def)
  from a ex_getSession(1) 1 2 3 4 show ?thesis by simp
qed

text \<open>
  C6, as stated, fails. No session has the id \<^verbatim>\<open>s-missing\<close>; the target status
  \<^verbatim>\<open>pending\<close>, one of the four status values, is answered 400, not 404, because the list of
  accepted values is checked before the session is looked up.
\<close>

theorem missing_session_counterexample:
  "getSession ex_db ''s-missing'' = None
   \<and> patch_session ex_db (Some ''u-alice'') ''s-missing'' (JStr ''pending'')
       = (ex_db, Message 400 ''Invalid status'')"
  by (simp add: ex_getSession patch_session_def)

text \<open>
  C6, amended. For every session id that is not in the store and every authenticated actor,
  a request for \<^verbatim>\<open>accepted\<close>, \<^verbatim>\<open>completed\<close> or \<^verbatim>\<open>cancelled\<close> fails with 404; a request
  with any other status value fails with 400. The database is unchanged in both cases.
\<close>

theorem missing_session_not_found:
  assumes "truthy userId" and "getSession db ident = None"
  shows "patch_session db userId ident status =
     (db, if status \<in> {JStr ''accepted'', JStr ''completed'', JStr ''cancelled''}
          then Message 404 ''Session not found'' else Message 400 ''Invalid status'')"
  using assms by (simp add: patch_session_def)

theorem missing_session_not_found_witness:
  "truthy (Some ''u-alice'') \<and> getSession ex_db ''s-missing'' = None
   \<and> patch_session ex_db (Some ''u-alice'') ''s-missing'' (JStr ''completed'')
       = (ex_db, Message 404 ''Session not found'')"
proof -
  have a: "truthy (Some ''u-alice'')" by simp
  from missing_session_not_found [OF a ex_getSession(4), of "JStr ''completed''"] a
  show ?thesis by (simp add: ex_getSession)
qed

text \<open>
  C9. A status update answered 200 leaves the users, the skills and the reviews as they
  were, keeps every session row whose id is not the one addressed, and keeps in every
  session row the id, requester, provider, skill, scheduled time, message and creation
  time: only the status column of the addressed session is written.
\<close>

theorem transition_frame:
  assumes "patch_session db userId ident status = (db', r)" and "status_code r = 200"
  shows "users db' = users db \<and> skills db' = skills db \<and> reviews db' = reviews db
       \<and> map session_id (sessions db') = map session_id (sessions db)
       \<and> map session_requesterId (sessions db') = map session_requesterId (sessions db)
       \<and> map session_providerId (sessions db') = map session_providerId (sessions db)
       \<and> map session_skillId (sessions db') = map session_skillId (sessions db)
       \<and> map session_scheduledAt (sessions db') = map session_scheduledAt (sessions db)
       \<and> map session_message (sessions db') = map session_message (sessions db)
       \<and> map session_createdAt (sessions db') = map session_createdAt (sessions db)
       \<and> filter (\<lambda>s. session_id s \<noteq> ident) (sessions db')
           = filter (\<lambda>s. session_id s \<noteq> ident) (sessions db)"
proof -
  have "db' = db\<lparr>sessions :=
                   map (\<lambda>r. if session_id r = ident
                            then r\<lparr>session_status := case status of JStr s \<Rightarrow> s | _ \<Rightarrow> []\<rparr>
                            else r)
                     (sessions db)\<rparr>"
    using assms
    by (auto simp add: patch_session_def updateSession_only_status
        split: if_splits option.splits)
  then show ?thesis by (simp add: map_untouched_column filter_other_rows)
qed

theorem transition_frame_witness:
  "status_code (snd (patch_session ex_db (Some ''u-bob'') ''s-pending'' (JStr ''accepted''))) = 200
   \<and> sessions (fst (patch_session ex_db (Some ''u-bob'') ''s-pending'' (JStr ''accepted'')))
       = [ex_session ''s-pending'' ''accepted'', ex_session ''s-accepted'' ''accepted'',
          ex_session ''s-completed'' ''completed'']
   \<and> reviews (fst (patch_session ex_db (Some ''u-bob'') ''s-pending'' (JStr ''accepted'')))
       = reviews ex_db
   \<and> map session_message
        (sessions (fst (patch_session ex_db (Some ''u-bob'') ''s-pending'' (JStr ''accepted''))))
       = map session_message (sessions ex_db)"
proof -
  obtain db' r where
    run: "patch_session ex_db (Some ''u-bob'') ''s-pending'' (JStr ''accepted'') = (db', r)"
    by (cases "patch_session ex_db (Some ''u-bob'') ''s-pending'' (JStr ''accepted'')")
  have eval: "patch_session ex_db (Some ''u-bob'') ''s-pending'' (JStr ''accepted'') =
      (ex_db\<lparr>sessions := [ex_session ''s-pending'' ''accepted'',
                            ex_session ''s-accepted'' ''accepted'',
                            ex_session ''s-completed'' ''completed'']\<rparr>,
       Json 200 (Some (ex_session ''s-pending'' ''accepted'')))"
    by (simp add: patch_session_def updateSession_only_status ex_getSession)
      (simp add: ex_db_def ex_session_def)
  with run have code: "status_code r = 200" by auto
  from transition_frame [OF run code] run eval code show ?thesis by auto
qed

subsection \<open>Review creation\<close>

lemma createReview_refuses:
  assumes "insert_rating review \<notin> \<int>"
  shows "createReview db newId now review = None"
proof -
  from assms have "of_int \<lfloor>insert_rating review\<rfloor> \<noteq> insert_rating review"
    by (metis Ints_of_int)
  then show ?thesis by (simp add: createReview_def)
qed

text \<open>
  C3. The claim holds for the specification and fails on the code, whose own comment reads
  \<^verbatim>\<open>Verify the reviewee is the other party\<close>: the check only rejects a reviewee who is
  neither participant. Alice, requester of the completed session \<^verbatim>\<open>s-completed\<close>, names
  herself as reviewee; the answer is 201 and a review of Alice by Alice is stored.
\<close>

theorem self_review_accepted:
  "map_option session_requesterId (getSession ex_db ''s-completed'') = Some ''u-alice''
   \<and> post_reviews ex_db ''r-4'' 600 (Some ''u-alice'')
        (ex_body ''s-completed'' ''u-alice'' (JNum 5))
     = (ex_db\<lparr>reviews := reviews ex_db @
           [\<lparr> review_id = ''r-4'', review_sessionId = ''s-completed'',
              review_reviewerId = ''u-alice'', review_revieweeId = ''u-alice'',
              review_rating = 5, review_comment = None, review_createdAt = 600 \<rparr>]\<rparr>,
        Json 201 \<lparr> review_id = ''r-4'', review_sessionId = ''s-completed'',
              review_reviewerId = ''u-alice'', review_revieweeId = ''u-alice'',
              review_rating = 5, review_comment = None, review_createdAt = 600 \<rparr>)"
  by (simp add: post_reviews_def ex_body_def ex_getSession createReview_def)
    (simp add: ex_session_def Let_def)

theorem self_review_accepted_witness:
  "status_code (snd (post_reviews ex_db ''r-4'' 600 (Some ''u-alice'')
                       (ex_body ''s-completed'' ''u-alice'' (JNum 5)))) = 201
   \<and> map review_reviewerId
        (reviews (fst (post_reviews ex_db ''r-4'' 600 (Some ''u-alice'')
                         (ex_body ''s-completed'' ''u-alice'' (JNum 5)))))
     = [''u-alice'', ''u-alice'', ''u-alice'', ''u-alice'']
   \<and> map review_revieweeId
        (reviews (fst (post_reviews ex_db ''r-4'' 600 (Some ''u-alice'')
                         (ex_body ''s-completed'' ''u-alice'' (JNum 5)))))
     = [''u-bob'', ''u-bob'', ''u-bob'', ''u-alice'']"
  using self_review_accepted by (simp add: ex_db_def ex_review_def)

text \<open>
  C7. A request whose rating is not an integer from 1 to 5 is rejected: the database is
  left as it was and the answer is an error, 400, 401, 403 or 500. From an authenticated
  user a rating that is not a number, or is below 1 or above 5, is answered 400 by the
  validation. The validation does not ask for an integer: a rating such as 4.5 that passes
  it, on a completed session of which the actor and the reviewee are participants, reaches
  the insert, which the integer column refuses, and the answer is the generic 500 of
  \<^verbatim>\<open>asyncHandler\<close>.
\<close>

theorem rating_gate:
  assumes "\<not> (typeof_number (body_rating body) \<and> number_of (body_rating body) \<in> \<int>
              \<and> 1 \<le> number_of (body_rating body) \<and> number_of (body_rating body) \<le> 5)"
  shows "fst (post_reviews db newId now userId body) = db
       \<and> status_code (snd (post_reviews db newId now userId body)) \<in> {400, 401, 403, 500}
       \<and> (truthy userId
            \<and> (typeof_number (body_rating body) \<longrightarrow>
                  number_of (body_rating body) < 1 \<or> number_of (body_rating body) > 5)
          \<longrightarrow> snd (post_reviews db newId now userId body) = Message 400 ''Invalid review data'')
       \<and> (truthy userId \<and> truthy (body_sessionId body) \<and> truthy (body_revieweeId body)
            \<and> typeof_number (body_rating body)
            \<and> 1 \<le> number_of (body_rating body) \<and> number_of (body_rating body) \<le> 5
            \<and> getSession db (the (body_sessionId body)) = Some session
            \<and> session_status session = ''completed''
            \<and> (userId = Some (session_requesterId session)
                \<or> userId = Some (session_providerId session))
            \<and> (body_revieweeId body = Some (session_requesterId session)
                \<or> body_revieweeId body = Some (session_providerId session))
          \<longrightarrow> snd (post_reviews db newId now userId body)
              = Message 500 ''An error occurred. Please try again.'')"
proof -
  have frac: "number_of (body_rating body) \<notin> \<int>"
    if "typeof_number (body_rating body)" "1 \<le> number_of (body_rating body)"
      "number_of (body_rating body) \<le> 5"
    using assms that by blast
  have run: "post_reviews db newId now userId body =
      (db, snd (post_reviews db newId now userId body))
      \<and> status_code (snd (post_reviews db newId now userId body)) \<in> {400, 401, 403, 500}"
  proof (cases "typeof_number (body_rating body) \<and> 1 \<le> number_of (body_rating body)
      \<and> number_of (body_rating body) \<le> 5")
    case True
    with frac have "number_of (body_rating body) \<notin> \<int>" by blast
    then show ?thesis
      by (simp add: post_reviews_def createReview_refuses split: option.splits)
  next
    case False
    then show ?thesis by (auto simp add: post_reviews_def)
  qed
  have invalid: "snd (post_reviews db newId now userId body) = Message 400 ''Invalid review data''"
    if "truthy userId"
      "typeof_number (body_rating body) \<longrightarrow>
         number_of (body_rating body) < 1 \<or> number_of (body_rating body) > 5"
    using that by (auto simp add: post_reviews_def)
  have thrown: "snd (post_reviews db newId now userId body)
      = Message 500 ''An error occurred. Please try again.''"
    if "truthy userId" "truthy (body_sessionId body)" "truthy (body_revieweeId body)"
      "typeof_number (body_rating body)"
      "1 \<le> number_of (body_rating body)" "number_of (body_rating body) \<le> 5"
      "getSession db (the (body_sessionId body)) = Some session"
      "session_status session = ''completed''"
      "userId = Some (session_requesterId session) \<or> userId = Some (session_providerId session)"
      "body_revieweeId body = Some (session_requesterId session)
        \<or> body_revieweeId body = Some (session_providerId session)"
  proof -
    from frac that(4-6) have "number_of (body_rating body) \<notin> \<int>" by blast
    with that show ?thesis by (auto simp add: post_reviews_def createReview_refuses)
  qed
  from run have "fst (post_reviews db newId now userId body) = db"
    by (metis fst_conv)
  with run invalid thrown show ?thesis by blast
qed

theorem rating_gate_witness:
  "(9 / 2 :: rat) \<notin> \<int>
   \<and> post_reviews ex_db ''r-4'' 600 (Some ''u-alice'')
        (ex_body ''s-completed'' ''u-bob'' (JNum (9 / 2)))
     = (ex_db, Message 500 ''An error occurred. Please try again.'')
   \<and> post_reviews ex_db ''r-4'' 600 (Some ''u-alice'') (ex_body ''s-completed'' ''u-bob'' (JNum 6))
     = (ex_db, Message 400 ''Invalid review data'')
   \<and> post_reviews ex_db ''r-4'' 600 (Some ''u-alice'')
        (ex_body ''s-completed'' ''u-bob'' (JStr ''5''))
     = (ex_db, Message 400 ''Invalid review data'')"
proof -
  have half: "(9 / 2 :: rat) \<notin> \<int>"
  proof
    assume "(9 / 2 :: rat) \<in> \<int>"
    then obtain k :: int where "(9 / 2 :: rat) = of_int k" by (auto elim: Ints_cases)
    then have "(9 :: rat) = of_int (2 * k)" by simp
    then have "(9 :: int) = 2 * k" by (metis of_int_eq_iff of_int_numeral)
    then show False by presburger
  qed
  have s: "getSession ex_db ''s-completed'' = Some (ex_session ''s-completed'' ''completed'')"
    by (rule ex_getSession)
  from rating_gate [of "ex_body ''s-completed'' ''u-bob'' (JNum (9 / 2))" ex_db "''r-4''" 600
      "Some ''u-alice''" "ex_session ''s-completed'' ''completed''"] half s
  have 1: "post_reviews ex_db ''r-4'' 600 (Some ''u-alice'')
        (ex_body ''s-completed'' ''u-bob'' (JNum (9 / 2)))
     = (ex_db, Message 500 ''An error occurred. Please try again.'')"
    by (simp add: ex_body_def ex_session_def prod_eq_iff)
  from rating_gate [of "ex_body ''s-completed'' ''u-bob'' (JNum 6)" ex_db "''r-4''" 600
      "Some ''u-alice''"]
  have 2: "post_reviews ex_db ''r-4'' 600 (Some ''u-alice'')
        (ex_body ''s-completed'' ''u-bob'' (JNum 6))
     = (ex_db, Message 400 ''Invalid review data'')"
    by (simp add: ex_body_def prod_eq_iff)
  from rating_gate [of "ex_body ''s-completed'' ''u-bob'' (JStr ''5'')" ex_db "''r-4''" 600
      "Some ''u-alice''"]
  have 3: "post_reviews ex_db ''r-4'' 600 (Some ''u-alice'')
        (ex_body ''s-completed'' ''u-bob'' (JStr ''5''))
     = (ex_db, Message 400 ''Invalid review data'')"
    by (simp add: ex_body_def prod_eq_iff)
  from half 1 2 3 show ?thesis by blast
qed

text \<open>
  C8. A request answered 201 has named a session that exists with the status
  \<^verbatim>\<open>completed\<close> and of which the acting user is the requester or the provider; the review
  sent back is the one appended to the reviews, it is about that session and written by the
  acting user, and the sessions, users and skills are unchanged. A request answered anything
  else leaves the whole database unchanged, so no review is created.
\<close>

theorem review_gate:
  assumes "post_reviews db newId now userId body = (db', r)"
  shows "(status_code r = 201 \<longrightarrow>
           (\<exists>sid session review.
              body_sessionId body = Some sid \<and> getSession db sid = Some session
              \<and> session_status session = ''completed''
              \<and> (userId = Some (session_requesterId session)
                  \<or> userId = Some (session_providerId session))
              \<and> r = Json 201 review
              \<and> review_sessionId review = sid
              \<and> Some (review_reviewerId review) = userId
              \<and> reviews db' = reviews db @ [review]
              \<and> sessions db' = sessions db \<and> users db' = users db
              \<and> skills db' = skills db))
       \<and> (status_code r \<noteq> 201 \<longrightarrow> db' = db)"
  using assms
  by (cases "body_sessionId body"; cases userId)
    (auto simp add: post_reviews_def createReview_def Let_def split: if_splits option.splits)

theorem review_gate_witness:
  "post_reviews ex_db ''r-4'' 600 (Some ''u-alice'') (ex_body ''s-completed'' ''u-bob'' (JNum 4))
     = (ex_db\<lparr>reviews := reviews ex_db @
           [\<lparr> review_id = ''r-4'', review_sessionId = ''s-completed'',
              review_reviewerId = ''u-alice'', review_revieweeId = ''u-bob'',
              review_rating = 4, review_comment = None, review_createdAt = 600 \<rparr>]\<rparr>,
        Json 201 \<lparr> review_id = ''r-4'', review_sessionId = ''s-completed'',
              review_reviewerId = ''u-alice'', review_revieweeId = ''u-bob'',
              review_rating = 4, review_comment = None, review_createdAt = 600 \<rparr>)
   \<and> (\<exists>session. getSession ex_db ''s-completed'' = Some session
          \<and> session_status session = ''completed'')
   \<and> post_reviews ex_db ''r-5'' 700 (Some ''u-alice'') (ex_body ''s-pending'' ''u-bob'' (JNum 4))
     = (ex_db, Message 400 ''Can only review completed sessions'')"
proof -
  let ?review = "\<lparr> review_id = ''r-4'', review_sessionId = ''s-completed'',
              review_reviewerId = ''u-alice'', review_revieweeId = ''u-bob'',
              review_rating = 4, review_comment = None, review_createdAt = 600 \<rparr>"
  have run: "post_reviews ex_db ''r-4'' 600 (Some ''u-alice'')
        (ex_body ''s-completed'' ''u-bob'' (JNum 4))
     = (ex_db\<lparr>reviews := reviews ex_db @ [?review]\<rparr>, Json 201 ?review)"
    by (simp add: post_reviews_def ex_body_def ex_getSession createReview_def)
      (simp add: ex_session_def Let_def)
  have code: "status_code (Json 201 ?review) = 201" by simp
  have other: "post_reviews ex_db ''r-5'' 700 (Some ''u-alice'')
        (ex_body ''s-pending'' ''u-bob'' (JNum 4))
     = (ex_db, Message 400 ''Can only review completed sessions'')"
    by (simp add: post_reviews_def ex_body_def ex_getSession) (simp add: ex_session_def)
  from review_gate [OF run] code
  have "\<exists>session. getSession ex_db ''s-completed'' = Some session
          \<and> session_status session = ''completed''"
    by (auto simp add: ex_body_def)
  with run other show ?thesis by blast
qed

subsection \<open>Skill search\<close>









text \<open>\<^verbatim>\<open>includes\<close> is the contiguous-sublist relation of the library.\<close>

lemma str_includes_sublist: "str_includes hay needle \<longleftrightarrow> sublist needle hay"
  by (induction hay) (simp_all add: sublist_Cons_right)







lemma order_desc_set: "set (order_desc column rows) = set rows"
  by (simp add: order_desc_def)






text \<open>
  C4. \<^verbatim>\<open>GET /api/search\<close> answers 200 with rows in which the embedded \<^verbatim>\<open>user\<close> is the
  stored user whose id is the skill's \<^verbatim>\<open>userId\<close>, password column included, while the
  user object sent by \<^verbatim>\<open>GET /api/auth/me\<close> and by \<^verbatim>\<open>POST /api/auth/login\<close> has no
  password.
\<close>

theorem search_password:
  "(\<exists>rows. get_search db query category = Json 200 rows
      \<and> (\<forall>r\<in>set rows. \<exists>u\<in>set (users db).
             user_id u = skill_userId r \<and> user r = u
             \<and> user_password (user r) = user_password u))
   \<and> (\<forall>j. get_auth_me db userId = Json 200 j \<longrightarrow> json_password j = None)
   \<and> (\<forall>userId' j. post_auth_login compare db userId username password = (userId', Json 200 j)
          \<longrightarrow> json_password j = None)"
proof -
  have "\<exists>u\<in>set (users db). user_id u = skill_userId r \<and> user r = u"
    if "r \<in> set (searchSkills db query category)" for r
  proof -
    from that have "r \<in> set [Skill.extend s (SkillWithUser.fields u).
             s \<leftarrow> skills db, u \<leftarrow> users db, skill_userId s = user_id u]"
      by (auto simp add: searchSkills_def Let_def order_desc_set split: if_splits)
    then show ?thesis
      by (auto simp add: Skill.extend_def SkillWithUser.fields_def split: if_splits)
  qed
  moreover have "json_password j = None" if "get_auth_me db userId = Json 200 j" for j
    using that
    by (auto simp add: get_auth_me_def without_password_def split: if_splits option.splits)
  moreover have "json_password j = None"
    if "post_auth_login compare db userId username password = (userId', Json 200 j)"
    for userId' j
    using that
    by (auto simp add: post_auth_login_def without_password_def
        split: if_splits option.splits)
  ultimately show ?thesis by (simp add: get_search_def)
qed

theorem search_password_witness:
  "Skill.extend ex_python (SkillWithUser.fields ex_bob)
     \<in> set (searchSkills ex_db (Some ''python'') None)
   \<and> user_password (user (Skill.extend ex_python (SkillWithUser.fields ex_bob)))
       = ''$2b$10$hashB''
   \<and> (\<exists>u\<in>set (users ex_db). user_id u = ''u-bob'' \<and> user_password u = ''$2b$10$hashB'')
   \<and> get_auth_me ex_db (Some ''u-bob'') = Json 200 (without_password ex_bob)
   \<and> json_password (without_password ex_bob) = None"
proof -
  have mem: "Skill.extend ex_python (SkillWithUser.fields ex_bob)
      \<in> set (searchSkills ex_db (Some ''python'') None)"
    by code_simp
  have me: "get_auth_me ex_db (Some ''u-bob'') = Json 200 (without_password ex_bob)"
    by (simp add: get_auth_me_def getUser_def ex_defs)
  from search_password [of ex_db "Some ''python''" None "Some ''u-bob''"]
  have every: "\<forall>r\<in>set (searchSkills ex_db (Some ''python'') None). \<exists>u\<in>set (users ex_db).
             user_id u = skill_userId r \<and> user r = u
             \<and> user_password (user r) = user_password u"
    and none: "\<forall>j. get_auth_me ex_db (Some ''u-bob'') = Json 200 j \<longrightarrow> json_password j = None"
    by (simp_all add: get_search_def)
  from bspec [OF every mem] obtain u where
    u: "u \<in> set (users ex_db)"
      "user (Skill.extend ex_python (SkillWithUser.fields ex_bob)) = u"
    by blast
  from u(2) have "u = ex_bob" by (simp add: Skill.extend_def SkillWithUser.fields_def)
  with u(1)
  have "\<exists>u\<in>set (users ex_db). user_id u = ''u-bob'' \<and> user_password u = ''$2b$10$hashB''"
    by (intro bexI [of _ ex_bob]) (simp_all add: ex_bob_def)
  moreover have "user_password (user (Skill.extend ex_python (SkillWithUser.fields ex_bob)))
      = ''$2b$10$hashB''"
    by (simp add: Skill.extend_def SkillWithUser.fields_def ex_bob_def)
  moreover from none me have "json_password (without_password ex_bob) = None" by blast
  ultimately show ?thesis using mem me by blast
qed

subsection \<open>Badges\<close>

text \<open>
  C5, as stated, fails. Bob has one skill and three reviews rated 5: the server sends the
  badges \<^verbatim>\<open>getting_started\<close> and \<^verbatim>\<open>highly_rated\<close>, and his Dashboard displays
  Getting Started alone. The Dashboard page has no badge for ratings and fetches no reviews.
\<close>

theorem badges_counterexample:
  "get_user_stats ex_db ''u-bob'' =
     Json 200 \<lparr> completedSessions = 1, offeringSkills = 1, seekingSkills = 0, averageRating = 5,
                reviewCount = 3, badges = [''getting_started'', ''highly_rated''] \<rparr>
   \<and> dashboard ex_db ''u-bob'' = [''Getting Started'']"
  by code_simp

lemma stats_fields:
  assumes "get_user_stats db ident = Json 200 st"
  shows "completedSessions st =
      length (filter (\<lambda>s. session_status s = ''completed'') (getSessionsByUserId db ident))"
    and "offeringSkills st =
      length (filter (\<lambda>s. skill_type s = ''offering'') (getSkillsByUserId db ident))"
    and "reviewCount st = length (getReviewsByUserId db ident)"
    and "averageRating st =
      (if reviewCount st = 0 then 0
       else of_int (sum_list (map review_rating (getReviewsByUserId db ident)))
            / of_nat (reviewCount st))"
    and "badges st =
      (if completedSessions st \<ge> 5 then [''top_tutor''] else [])
      @ (if offeringSkills st \<ge> 3 then [''skill_master''] else [])
      @ (if length (getSkillsByUserId db ident) \<ge> 1 then [''getting_started''] else [])
      @ (if averageRating st \<ge> 9 / 2 \<and> reviewCount st \<ge> 3 then [''highly_rated''] else [])"
proof -
  from assms obtain u where "getUser db ident = Some u"
    by (cases "getUser db ident") (simp_all add: get_user_stats_def)
  with assms have st: "st =
      (let skills' = getSkillsByUserId db ident;
           sessions' = getSessionsByUserId db ident;
           reviews' = getReviewsByUserId db ident;
           completed = length (filter (\<lambda>s. session_status s = ''completed'') sessions');
           offering = length (filter (\<lambda>s. skill_type s = ''offering'') skills');
           average =
             (if length reviews' > 0
              then of_int (sum_list (map review_rating reviews')) / of_nat (length reviews')
              else 0)
       in \<lparr> completedSessions = completed,
            offeringSkills = offering,
            seekingSkills = length (filter (\<lambda>s. skill_type s = ''seeking'') skills'),
            averageRating = average,
            reviewCount = length reviews',
            badges =
              (if completed \<ge> 5 then [''top_tutor''] else [])
              @ (if offering \<ge> 3 then [''skill_master''] else [])
              @ (if length skills' \<ge> 1 then [''getting_started''] else [])
              @ (if average \<ge> 9 / 2 \<and> length reviews' \<ge> 3 then [''highly_rated'']
                 else []) \<rparr>)"
    by (simp add: get_user_stats_def Let_def)
  show "completedSessions st =
      length (filter (\<lambda>s. session_status s = ''completed'') (getSessionsByUserId db ident))"
    by (simp add: st Let_def)
  show "offeringSkills st =
      length (filter (\<lambda>s. skill_type s = ''offering'') (getSkillsByUserId db ident))"
    by (simp add: st Let_def)
  show "reviewCount st = length (getReviewsByUserId db ident)"
    by (simp add: st Let_def)
  show "averageRating st =
      (if reviewCount st = 0 then 0
       else of_int (sum_list (map review_rating (getReviewsByUserId db ident)))
            / of_nat (reviewCount st))"
    by (simp add: st Let_def)
  show "badges st =
      (if completedSessions st \<ge> 5 then [''top_tutor''] else [])
      @ (if offeringSkills st \<ge> 3 then [''skill_master''] else [])
      @ (if length (getSkillsByUserId db ident) \<ge> 1 then [''getting_started''] else [])
      @ (if averageRating st \<ge> 9 / 2 \<and> reviewCount st \<ge> 3 then [''highly_rated''] else [])"
    by (simp add: st Let_def)
qed

lemma dashboard_fields:
  "dashboard db ident =
      (if length (filter (\<lambda>s. session_status s = ''completed'') (getSessionsByUserId db ident))
            \<ge> 5
       then [''Top Tutor''] else [])
      @ (if length (filter (\<lambda>s. skill_type s = ''offering'') (getSkillsByUserId db ident)) \<ge> 3
         then [''Skill Master''] else [])
      @ (if length (getSkillsByUserId db ident) \<ge> 1 then [''Getting Started''] else [])"
  by (simp add: dashboard_def dashboard_badges_def Let_def)

text \<open>
  C5, amended. For every user, with the counts the server reports: the server sends
  \<^verbatim>\<open>top_tutor\<close>, and the Dashboard displays Top Tutor, exactly when the user has at least 5
  completed sessions; \<^verbatim>\<open>skill_master\<close> and Skill Master exactly when the user has at least
  3 offering skills; \<^verbatim>\<open>getting_started\<close> and Getting Started exactly when the user has at
  least one skill. So server and Dashboard agree on these three. The server alone has
  \<^verbatim>\<open>highly_rated\<close>, sent exactly when the average rating is at least 4.5 and the review
  count at least 3; the Dashboard displays nothing but the three other badges, and the server
  sends nothing but the four. The counts are those of the user's sessions with status
  \<^verbatim>\<open>completed\<close>, of the user's skills of type \<^verbatim>\<open>offering\<close> and of the reviews received; the
  average is the sum of the ratings received divided by their number, and 0 without reviews.
\<close>

theorem badges_agreement:
  assumes "get_user_stats db ident = Json 200 st"
  shows "(''top_tutor'' \<in> set (badges st) \<longleftrightarrow> ''Top Tutor'' \<in> set (dashboard db ident))
       \<and> (''skill_master'' \<in> set (badges st) \<longleftrightarrow> ''Skill Master'' \<in> set (dashboard db ident))
       \<and> (''getting_started'' \<in> set (badges st)
            \<longleftrightarrow> ''Getting Started'' \<in> set (dashboard db ident))
       \<and> (''highly_rated'' \<in> set (badges st) \<longleftrightarrow> averageRating st \<ge> 9 / 2 \<and> reviewCount st \<ge> 3)
       \<and> set (dashboard db ident) \<subseteq> {''Top Tutor'', ''Skill Master'', ''Getting Started''}
       \<and> reviewCount st = length (getReviewsByUserId db ident)
       \<and> averageRating st =
           (if reviewCount st = 0 then 0
            else of_int (sum_list (map review_rating (getReviewsByUserId db ident)))
                 / of_nat (reviewCount st))
       \<and> (''top_tutor'' \<in> set (badges st) \<longleftrightarrow> completedSessions st \<ge> 5)
       \<and> (''Top Tutor'' \<in> set (dashboard db ident) \<longleftrightarrow> completedSessions st \<ge> 5)
       \<and> (''skill_master'' \<in> set (badges st) \<longleftrightarrow> offeringSkills st \<ge> 3)
       \<and> (''Skill Master'' \<in> set (dashboard db ident) \<longleftrightarrow> offeringSkills st \<ge> 3)
       \<and> (''getting_started'' \<in> set (badges st) \<longleftrightarrow> length (getSkillsByUserId db ident) \<ge> 1)
       \<and> (''Getting Started'' \<in> set (dashboard db ident)
            \<longleftrightarrow> length (getSkillsByUserId db ident) \<ge> 1)
       \<and> completedSessions st =
           length (filter (\<lambda>s. session_status s = ''completed'') (getSessionsByUserId db ident))
       \<and> offeringSkills st =
           length (filter (\<lambda>s. skill_type s = ''offering'') (getSkillsByUserId db ident))
       \<and> set (badges st)
           \<subseteq> {''top_tutor'', ''skill_master'', ''getting_started'', ''highly_rated''}"
proof -
  note b = stats_fields(5) [OF assms]
  note c = stats_fields(1) [OF assms] and o = stats_fields(2) [OF assms]
  note d = dashboard_fields [of db ident, folded c o]
  have s1: "''top_tutor'' \<in> set (badges st) \<longleftrightarrow> completedSessions st \<ge> 5"
    unfolding b by simp
  have s2: "''skill_master'' \<in> set (badges st) \<longleftrightarrow> offeringSkills st \<ge> 3"
    unfolding b by simp
  have s3: "''getting_started'' \<in> set (badges st) \<longleftrightarrow> length (getSkillsByUserId db ident) \<ge> 1"
    unfolding b by simp
  have s4: "''highly_rated'' \<in> set (badges st)
      \<longleftrightarrow> averageRating st \<ge> 9 / 2 \<and> reviewCount st \<ge> 3"
    unfolding b by simp
  have s5: "set (badges st)
      \<subseteq> {''top_tutor'', ''skill_master'', ''getting_started'', ''highly_rated''}"
    unfolding b by auto
  have d1: "''Top Tutor'' \<in> set (dashboard db ident) \<longleftrightarrow> completedSessions st \<ge> 5"
    unfolding d by simp
  have d2: "''Skill Master'' \<in> set (dashboard db ident) \<longleftrightarrow> offeringSkills st \<ge> 3"
    unfolding d by simp
  have d3: "''Getting Started'' \<in> set (dashboard db ident)
      \<longleftrightarrow> length (getSkillsByUserId db ident) \<ge> 1"
    unfolding d by simp
  have d5: "set (dashboard db ident) \<subseteq> {''Top Tutor'', ''Skill Master'', ''Getting Started''}"
    unfolding d by auto
  from s1 s2 s3 s4 s5 d1 d2 d3 d5 c o stats_fields(3,4) [OF assms] show ?thesis
    by (intro conjI) (simp_all only:)
qed

theorem badges_agreement_witness:
  "get_user_stats ex_db ''u-bob'' =
     Json 200 \<lparr> completedSessions = 1, offeringSkills = 1, seekingSkills = 0, averageRating = 5,
                reviewCount = 3, badges = [''getting_started'', ''highly_rated''] \<rparr>
   \<and> ''Getting Started'' \<in> set (dashboard ex_db ''u-bob'')
   \<and> ''Top Tutor'' \<notin> set (dashboard ex_db ''u-bob'')
   \<and> ''Skill Master'' \<notin> set (dashboard ex_db ''u-bob'')
   \<and> length (getSkillsByUserId ex_db ''u-bob'') = 1"
proof -
  have run: "get_user_stats ex_db ''u-bob'' =
     Json 200 \<lparr> completedSessions = 1, offeringSkills = 1, seekingSkills = 0, averageRating = 5,
                reviewCount = 3, badges = [''getting_started'', ''highly_rated''] \<rparr>"
    by code_simp
  have one: "length (getSkillsByUserId ex_db ''u-bob'') = 1"
    by (simp add: getSkillsByUserId_def order_desc_def ex_defs)
  from badges_agreement [OF run] run one show ?thesis by simp
qed

end
